theory Spec2Isabelle
  imports Main "HOL-Library.Word"
begin

section \<open>JavaScript values and strings\<close>

text \<open>
  A JavaScript string is a list of 16-bit code units. A literal of the source is written
  \<open>lit ''...''\<close>: each of its characters is the code unit of the same number.
\<close>

type_synonym code_unit = "16 word"

type_synonym js_string = "code_unit list"

definition lit :: "string \<Rightarrow> js_string" where
  "lit s = map of_char s"

text \<open>
  \<open>String.prototype.trim\<close> removes white space and line terminators from both ends:
  TAB, LF, VT, FF, CR, SP, NBSP, U+1680, U+2000 to U+200A, U+2028, U+2029, U+202F,
  U+205F, U+3000 and U+FEFF.
\<close>

definition isWhiteSpace :: "code_unit \<Rightarrow> bool" where
  "isWhiteSpace u =
     (let n = unat u
      in (9 \<le> n \<and> n \<le> 13) \<or> n = 32 \<or> n = 160 \<or> n = 0x1680 \<or> (0x2000 \<le> n \<and> n \<le> 0x200A)
         \<or> n = 0x2028 \<or> n = 0x2029 \<or> n = 0x202F \<or> n = 0x205F \<or> n = 0x3000 \<or> n = 0xFEFF)"

definition trim :: "js_string \<Rightarrow> js_string" where
  "trim s = rev (dropWhile isWhiteSpace (rev (dropWhile isWhiteSpace s)))"

text \<open>
  \<open>String.prototype.toLowerCase\<close> is written out for the code units below U+0100: the
  letters with a lower-case mapping there are A to Z and U+00C0 to U+00DE without the
  multiplication sign U+00D7. The case tables of Unicode beyond U+00FF are not written
  out, and such a unit is kept. The only unit there whose lower case is an ASCII letter is
  the Kelvin sign U+212A (to \<open>k\<close>).
\<close>

definition toLowerCase_unit :: "code_unit \<Rightarrow> code_unit" where
  "toLowerCase_unit u =
     (let n = unat u
      in if (65 \<le> n \<and> n \<le> 90) \<or> (192 \<le> n \<and> n \<le> 222 \<and> n \<noteq> 215)
         then u + 32 else u)"

definition toLowerCase :: "js_string \<Rightarrow> js_string" where
  "toLowerCase s = map toLowerCase_unit s"

text \<open>
  A string is well formed when it has no lone surrogate: every unit from U+D800 to U+DBFF
  is followed by one from U+DC00 to U+DFFF, and these occur nowhere else.
\<close>

definition isHighSurrogate :: "code_unit \<Rightarrow> bool" where
  "isHighSurrogate u = (0xD800 \<le> unat u \<and> unat u \<le> 0xDBFF)"

definition isLowSurrogate :: "code_unit \<Rightarrow> bool" where
  "isLowSurrogate u = (0xDC00 \<le> unat u \<and> unat u \<le> 0xDFFF)"

fun isWellFormed :: "js_string \<Rightarrow> bool" where
  "isWellFormed [] = True"
| "isWellFormed [u] = (\<not> isHighSurrogate u \<and> \<not> isLowSurrogate u)"
| "isWellFormed (u # v # us) =
     (if isHighSurrogate u then isLowSurrogate v \<and> isWellFormed us
      else \<not> isLowSurrogate u \<and> isWellFormed (v # us))"

text \<open>
  The values that \<open>response.json()\<close> can produce, and \<open>undefined\<close> for a property that
  is not there. A number is carried as its canonical rendering (the result of
  \<open>Number.prototype.toString\<close>, so both zeros are \<open>''0''\<close>); an object as the list of
  its own properties.
\<close>

datatype js_value =
    Undefined
  | Null
  | Bool bool
  | Num string
  | Str js_string
  | Arr "js_value list"
  | Obj "(js_string \<times> js_value) list"

text \<open>
  A thrown value: an instance of \<open>Error\<close> with its \<open>message\<close>, or any other value.
\<close>

datatype thrown = ErrorInstance js_string | NonError js_value

text \<open>
  The wording of the engine's own errors is implementation-defined; V8's is used. It
  differs from every text the widget itself supplies in any engine.
\<close>

definition TypeError_read :: "string \<Rightarrow> js_string \<Rightarrow> thrown" where
  "TypeError_read what k =
     ErrorInstance (lit (''Cannot read properties of '' @ what @ '' (reading '') @ lit [CHR 0x27]
                    @ k @ lit [CHR 0x27] @ lit '')'')"

definition TypeError_primitive :: thrown where
  "TypeError_primitive = ErrorInstance (lit ''Cannot convert object to primitive value'')"

definition URIError_malformed :: thrown where
  "URIError_malformed = ErrorInstance (lit ''URI malformed'')"

text \<open>\<open>if (v)\<close>, \<open>!v\<close> and \<open>v || w\<close> test this.\<close>

fun truthy :: "js_value \<Rightarrow> bool" where
  "truthy Undefined = False"
| "truthy Null = False"
| "truthy (Bool b) = b"
| "truthy (Num n) = (n \<noteq> ''0'' \<and> n \<noteq> ''NaN'')"
| "truthy (Str s) = (s \<noteq> [])"
| "truthy (Arr xs) = True"
| "truthy (Obj kvs) = True"

text \<open>
  \<open>v.error\<close> and \<open>v.response\<close>: reading a property of \<open>null\<close> or \<open>undefined\<close> throws
  a TypeError; a primitive or an array has no such property; an object gives its own one.
  Only these two names are read, and neither is inherited from a prototype.
\<close>

fun get_prop :: "js_value \<Rightarrow> js_string \<Rightarrow> thrown + js_value" where
  "get_prop Undefined k = Inl (TypeError_read ''undefined'' k)"
| "get_prop Null k = Inl (TypeError_read ''null'' k)"
| "get_prop (Obj kvs) k = Inr (case map_of kvs k of None \<Rightarrow> Undefined | Some v \<Rightarrow> v)"
| "get_prop v k = Inr Undefined"

text \<open>
  \<open>ToString\<close>, which \<open>new Error(v)\<close> applies to its argument. An array is joined with
  commas, \<open>null\<close> and \<open>undefined\<close> elements counting as empty; a parsed object is
  \<open>[object Object]\<close> unless an own property hides \<open>toString\<close> (a parsed value is
  never callable, and \<open>valueOf\<close> gives back the object), where the conversion throws.
\<close>

fun join_comma :: "(thrown + js_string) list \<Rightarrow> thrown + js_string" where
  "join_comma [] = Inr []"
| "join_comma [r] = r"
| "join_comma (r # rs) =
     (case r of Inl t \<Rightarrow> Inl t
      | Inr a \<Rightarrow> (case join_comma rs of Inl t \<Rightarrow> Inl t | Inr b \<Rightarrow> Inr (a @ lit '','' @ b)))"

fun ToString :: "js_value \<Rightarrow> thrown + js_string" where
  "ToString Undefined = Inr (lit ''undefined'')"
| "ToString Null = Inr (lit ''null'')"
| "ToString (Bool b) = Inr (if b then lit ''true'' else lit ''false'')"
| "ToString (Num n) = Inr (lit n)"
| "ToString (Str s) = Inr s"
| "ToString (Arr xs) =
     join_comma (map (\<lambda>x. if x = Null \<or> x = Undefined then Inr [] else ToString x) xs)"
| "ToString (Obj kvs) =
     (case map_of kvs (lit ''toString'') of None \<Rightarrow> Inr (lit ''[object Object]'')
      | Some v \<Rightarrow> Inl TypeError_primitive)"

section \<open>The Responder: \<open>GET\<close>\<close>

text \<open>
  The request as the handler reads it: the query of its URL, a list of name and value
  pairs. \<open>searchParams.get\<close> gives the first value of a name, or \<open>null\<close>.
\<close>

record request =
  path :: string
  searchParams :: "(js_string \<times> js_string) list"

record NextResponse =
  status :: nat
  body :: js_value

definition searchParams_get :: "request \<Rightarrow> js_string \<Rightarrow> js_string option" where
  "searchParams_get r k = map_of (searchParams r) k"

text \<open>\<open>NextResponse.json(value)\<close> has status 200 unless one is given.\<close>

definition NextResponse_json :: "js_value \<Rightarrow> nat option \<Rightarrow> NextResponse" where
  "NextResponse_json v st = \<lparr>status = (case st of None \<Rightarrow> 200 | Some n \<Rightarrow> n), body = v\<rparr>"

definition GET :: "request \<Rightarrow> NextResponse" where
  "GET r =
     (case searchParams_get r (lit ''message'') of
        None \<Rightarrow>
          NextResponse_json (Obj [(lit ''error'', Str (lit ''Missing message query''))]) (Some 400)
      | Some message \<Rightarrow>
          if message = [] then
            NextResponse_json (Obj [(lit ''error'', Str (lit ''Missing message query''))]) (Some 400)
          else
            (let m = toLowerCase message in
             if m = lit ''hello'' then
               NextResponse_json
                 (Obj [(lit ''response'', Str (lit ''Hello! How can I help you today?''))]) None
             else if m = lit ''what is your name?'' then
               NextResponse_json
                 (Obj [(lit ''response'', Str (lit ''I'm a chatbot built by MAS.''))]) None
             else if m = lit ''error'' then
               NextResponse_json (Obj [(lit ''error'', Str (lit ''Something went wrong''))]) (Some 500)
             else
               NextResponse_json
                 (Obj [(lit ''response'', Str (lit ''Sorry, I didn't understand that.''))]) None))"

section \<open>The Widget: \<open>Chatbot\<close>\<close>

datatype MessageSender = S_user | S_bot | S_error | S_typing

text \<open>
  \<open>Date.now()\<close> and \<open>new Date()\<close> read the wall clock, in milliseconds; what they
  return is an input of the model. \<open>addMessage\<close> reads both.
\<close>

record clock =
  Date_now :: int
  new_Date :: int

record Message =
  m_id :: int
  m_text :: js_value
  m_sender :: MessageSender
  m_timestamp :: "int option"

text \<open>
  The component's three state variables, and the requests that \<open>fetch\<close> has sent and
  that have not settled yet.
\<close>

record state =
  messages :: "Message list"
  input :: js_string
  isTyping :: bool
  inflight :: "request list"

text \<open>
  What \<open>handleSend\<close> does, in program order: the three state setters, \<open>fetch\<close> and
  \<open>console.error\<close>. \<open>setMessages\<close> is only called with the function that appends
  one message to the previous list.
\<close>

datatype effect =
    SetMessages_append Message
  | SetInput js_string
  | SetIsTyping bool
  | Fetch request
  | Console_error thrown

fun exec :: "effect \<Rightarrow> state \<Rightarrow> state" where
  "exec (SetMessages_append m) s = s\<lparr>messages := messages s @ [m]\<rparr>"
| "exec (SetInput v) s = s\<lparr>input := v\<rparr>"
| "exec (SetIsTyping b) s = s\<lparr>isTyping := b\<rparr>"
| "exec (Fetch r) s = s\<lparr>inflight := inflight s @ [r]\<rparr>"
| "exec (Console_error t) s = s"

definition run :: "effect list \<Rightarrow> state \<Rightarrow> state" where
  "run es s = foldl (\<lambda>s e. exec e s) s es"

definition addMessage :: "clock \<Rightarrow> js_value \<Rightarrow> MessageSender \<Rightarrow> effect" where
  "addMessage c text sender =
     SetMessages_append
       \<lparr>m_id = Date_now c, m_text = text, m_sender = sender, m_timestamp = Some (new_Date c)\<rparr>"

text \<open>
  \<open>encodeURIComponent\<close> throws a URIError on a string that is not well formed. The
  component it returns is kept unescaped here, as \<open>searchParams\<close> gives it back to the
  handler: escaping and the handler's unescaping undo each other on a well-formed string.
\<close>

definition encodeURIComponent :: "js_string \<Rightarrow> thrown + js_string" where
  "encodeURIComponent s = (if isWellFormed s then Inr s else Inl URIError_malformed)"

text \<open>
  The URL \<open>/api/chat?message=${component}\<close>, as the handler will read it: one query
  parameter.
\<close>

definition chat_url :: "js_string \<Rightarrow> request" where
  "chat_url component = \<lparr>path = ''/api/chat'', searchParams = [(lit ''message'', component)]\<rparr>"

text \<open>
  How the awaited \<open>fetch\<close> ends: it rejects with a thrown value, or gives a response
  whose \<open>ok\<close> is known and whose \<open>json()\<close> rejects or gives a parsed value.
\<close>

record Response =
  ok :: bool
  json :: "thrown + js_value"

type_synonym fetch_outcome = "thrown + Response"

text \<open>
  The \<open>try\<close> block after the \<open>await\<close>: \<open>Inl\<close> is what it throws, \<open>Inr\<close> the one
  \<open>addMessage\<close> call it reaches (text and sender).
\<close>

definition try_block :: "fetch_outcome \<Rightarrow> thrown + (js_value \<times> MessageSender)" where
  "try_block outcome =
     (case outcome of
        Inl t \<Rightarrow> Inl t
      | Inr response \<Rightarrow>
          if \<not> ok response then
            (case json response of
               Inl t \<Rightarrow> Inl t
             | Inr errorData \<Rightarrow>
                 (case get_prop errorData (lit ''error'') of
                    Inl t \<Rightarrow> Inl t
                  | Inr e \<Rightarrow>
                      (case ToString (if truthy e then e else Str (lit ''Failed to get response'')) of
                         Inl t \<Rightarrow> Inl t
                       | Inr msg \<Rightarrow> Inl (ErrorInstance msg))))
          else
            (case json response of
               Inl t \<Rightarrow> Inl t
             | Inr data \<Rightarrow>
                 (case get_prop data (lit ''error'') of
                    Inl t \<Rightarrow> Inl t
                  | Inr e \<Rightarrow>
                      if truthy e then Inr (e, S_error)
                      else (case get_prop data (lit ''response'') of
                              Inl t \<Rightarrow> Inl t
                            | Inr r \<Rightarrow> Inr (r, S_bot)))))"

text \<open>The text the \<open>catch\<close> clause shows.\<close>

definition catch_text :: "thrown \<Rightarrow> js_value" where
  "catch_text err =
     (case err of
        ErrorInstance message \<Rightarrow> Str message
      | NonError v \<Rightarrow> Str (lit ''Sorry, something went wrong. Please try again.''))"

text \<open>The \<open>catch\<close> clause, followed by the \<open>finally\<close> clause.\<close>

definition catch_finally :: "thrown \<Rightarrow> clock \<Rightarrow> effect list" where
  "catch_finally err c =
     [Console_error err, addMessage c (catch_text err) S_error, SetIsTyping False]"

text \<open>\<open>handleSend\<close> from the settling of the \<open>fetch\<close> to its end.\<close>

definition handleSend_settle :: "fetch_outcome \<Rightarrow> clock \<Rightarrow> effect list" where
  "handleSend_settle outcome c =
     (case try_block outcome of
        Inr (text, sender) \<Rightarrow> [addMessage c text sender, SetIsTyping False]
      | Inl err \<Rightarrow> catch_finally err c)"

text \<open>
  \<open>handleSend\<close> up to its first \<open>await\<close>. The first argument is the \<open>input\<close> of the
  render the handler belongs to. The argument of \<open>fetch\<close> is evaluated inside the
  \<open>try\<close> block: when \<open>encodeURIComponent\<close> throws, no request is sent and the
  \<open>catch\<close> and \<open>finally\<close> clauses run at once, the clock being read again (\<open>c'\<close>).
\<close>

definition handleSend :: "js_string \<Rightarrow> clock \<Rightarrow> clock \<Rightarrow> effect list" where
  "handleSend inp c c' =
     (let trimmedInput = trim inp in
      if trimmedInput = [] then []
      else [addMessage c (Str trimmedInput) S_user,
            SetInput [],
            SetIsTyping True]
           @ (case encodeURIComponent trimmedInput of
                Inl err \<Rightarrow> catch_finally err c'
              | Inr component \<Rightarrow> [Fetch (chat_url component)]))"

definition handleKeyDown :: "js_string \<Rightarrow> js_string \<Rightarrow> bool \<Rightarrow> clock \<Rightarrow> clock \<Rightarrow> effect list" where
  "handleKeyDown inp key shiftKey c c' =
     (if key = lit ''Enter'' \<and> \<not> shiftKey then handleSend inp c c' else [])"

subsection \<open>The events of the mounted component\<close>

text \<open>
  The text field is \<open>disabled={isTyping}\<close> and the button
  \<open>disabled={!input.trim() || isTyping}\<close>; a disabled control gets no change, key or
  click event. Each event runs on the latest render. \<open>step\<close> is \<open>None\<close> where the
  event cannot happen.
\<close>

datatype event =
    Change js_string
  | KeyDown js_string bool clock clock
  | Click clock clock
  | Settle fetch_outcome clock

fun step :: "state \<Rightarrow> event \<Rightarrow> state option" where
  "step s (Change v) = (if isTyping s then None else Some (exec (SetInput v) s))"
| "step s (KeyDown key shiftKey c c') =
     (if isTyping s then None else Some (run (handleKeyDown (input s) key shiftKey c c') s))"
| "step s (Click c c') =
     (if trim (input s) = [] \<or> isTyping s then None
      else Some (run (handleSend (input s) c c') s))"
| "step s (Settle outcome c) =
     (case inflight s of
        [] \<Rightarrow> None
      | r # rs \<Rightarrow> Some (run (handleSend_settle outcome c) (s\<lparr>inflight := rs\<rparr>)))"

definition init :: state where
  "init = \<lparr>messages = [], input = [], isTyping = False, inflight = []\<rparr>"

fun steps :: "state \<Rightarrow> event list \<Rightarrow> state option" where
  "steps s [] = Some s"
| "steps s (e # es) = (case step s e of None \<Rightarrow> None | Some s' \<Rightarrow> steps s' es)"

inductive reachable :: "state \<Rightarrow> bool" where
  reachable_init: "reachable init"
| reachable_step: "reachable s \<Longrightarrow> step s e = Some s' \<Longrightarrow> reachable s'"

text \<open>
  The two components joined: the outcome of a \<open>fetch\<close> that reaches \<open>GET\<close> and comes
  back whole. \<open>ok\<close> is a status from 200 to 299.
\<close>

definition fetch_GET :: "request \<Rightarrow> fetch_outcome" where
  "fetch_GET r =
     (let res = GET r
      in Inr \<lparr>ok = (200 \<le> status res \<and> status res \<le> 299), json = Inr (body res)\<rparr>)"

subsection \<open>Example inputs\<close>

definition clock1 :: clock where
  "clock1 = \<lparr>Date_now = 1700000000000, new_Date = 1700000000000\<rparr>"

definition clock2 :: clock where
  "clock2 = \<lparr>Date_now = 1700000000250, new_Date = 1700000000250\<rparr>"

definition same_millisecond :: "event list" where
  "same_millisecond =
     [Change (lit ''hello''), Click clock1 clock1,
      Settle (fetch_GET (chat_url (lit ''hello''))) clock1]"

definition typed_hello :: state where
  "typed_hello = \<lparr>messages = [], input = lit '' Hello  '', isTyping = False, inflight = []\<rparr>"

definition awaiting_hello :: state where
  "awaiting_hello =
     \<lparr>messages =
        [\<lparr>m_id = 1700000000000, m_text = Str (lit ''Hello''), m_sender = S_user,
          m_timestamp = Some 1700000000000\<rparr>],
      input = [], isTyping = True, inflight = [chat_url (lit ''Hello'')]\<rparr>"

definition typed_blank :: state where
  "typed_blank =
     \<lparr>messages = [], input = [0x20, 0x09, 0x3000], isTyping = False, inflight = []\<rparr>"

text \<open>The string \<open>"a\ud800b"\<close>: a lone surrogate between two letters.\<close>

definition lone_surrogate :: js_string where
  "lone_surrogate = [0x61, 0xD800, 0x62]"

definition typed_lone_surrogate :: state where
  "typed_lone_surrogate =
     \<lparr>messages = [], input = lone_surrogate, isTyping = False, inflight = []\<rparr>"

section \<open>Properties\<close>

subsection \<open>Auxiliary facts\<close>

lemma run_Nil [simp]: "run [] s = s"
  by (simp add: run_def)

lemma run_Cons [simp]: "run (e # es) s = run es (exec e s)"
  by (simp add: run_def)

lemma run_append [simp]: "run (es @ fs) s = run fs (run es s)"
  by (simp add: run_def)

lemma trim_Nil [simp]: "trim [] = []"
  by (simp add: trim_def)

lemma trim_empty_iff: "trim s = [] \<longleftrightarrow> (\<forall>u\<in>set s. isWhiteSpace u)"
proof
  assume "trim s = []"
  then have "\<forall>x\<in>set (dropWhile isWhiteSpace s). isWhiteSpace x"
    by (simp add: trim_def)
  then have "dropWhile isWhiteSpace s = []"
    by (cases "dropWhile isWhiteSpace s") (auto dest: hd_dropWhile simp: dropWhile_eq_Cons_conv)
  then show "\<forall>u\<in>set s. isWhiteSpace u"
    by simp
next
  assume "\<forall>u\<in>set s. isWhiteSpace u"
  then show "trim s = []"
    by (auto simp: trim_def dest: set_dropWhileD)
qed


lemma catch_finally_state:
  "run (catch_finally err c) s =
     s\<lparr>messages := messages s @
          [\<lparr>m_id = Date_now c, m_text = catch_text err, m_sender = S_error,
            m_timestamp = Some (new_Date c)\<rparr>],
       isTyping := False\<rparr>"
  by (simp add: catch_finally_def addMessage_def)

lemma settle_messages:
  "messages (run (handleSend_settle outcome c) s) =
     messages s @
     [case try_block outcome of
        Inr (text, sender) \<Rightarrow>
          \<lparr>m_id = Date_now c, m_text = text, m_sender = sender, m_timestamp = Some (new_Date c)\<rparr>
      | Inl err \<Rightarrow>
          \<lparr>m_id = Date_now c, m_text = catch_text err, m_sender = S_error,
           m_timestamp = Some (new_Date c)\<rparr>]"
  by (simp add: handleSend_settle_def addMessage_def catch_finally_state
      split: sum.splits prod.splits)

lemma settle_rest:
  "input (run (handleSend_settle outcome c) s) = input s"
  "isTyping (run (handleSend_settle outcome c) s) = False"
  "inflight (run (handleSend_settle outcome c) s) = inflight s"
  by (simp_all add: handleSend_settle_def addMessage_def catch_finally_state
      split: sum.splits prod.splits)

lemma handleSend_when_blank: "trim inp = [] \<Longrightarrow> handleSend inp c c' = []"
  by (simp add: handleSend_def)

lemma handleSend_when_text:
  "trim inp \<noteq> [] \<Longrightarrow> isWellFormed (trim inp) \<Longrightarrow>
   handleSend inp c c' =
     [SetMessages_append
        \<lparr>m_id = Date_now c, m_text = Str (trim inp), m_sender = S_user,
         m_timestamp = Some (new_Date c)\<rparr>,
      SetInput [], SetIsTyping True,
      Fetch \<lparr>path = ''/api/chat'', searchParams = [(lit ''message'', trim inp)]\<rparr>]"
  by (simp add: handleSend_def addMessage_def chat_url_def encodeURIComponent_def Let_def)

lemma handleSend_when_malformed:
  "trim inp \<noteq> [] \<Longrightarrow> \<not> isWellFormed (trim inp) \<Longrightarrow>
   handleSend inp c c' =
     [SetMessages_append
        \<lparr>m_id = Date_now c, m_text = Str (trim inp), m_sender = S_user,
         m_timestamp = Some (new_Date c)\<rparr>,
      SetInput [], SetIsTyping True,
      Console_error URIError_malformed,
      SetMessages_append
        \<lparr>m_id = Date_now c', m_text = Str (lit ''URI malformed''), m_sender = S_error,
         m_timestamp = Some (new_Date c')\<rparr>,
      SetIsTyping False]"
  by (simp add: handleSend_def addMessage_def encodeURIComponent_def Let_def catch_finally_def
      catch_text_def URIError_malformed_def)

lemma reachable_inv:
  "reachable s \<Longrightarrow>
   (isTyping s \<longrightarrow> input s = [] \<and> length (inflight s) = 1) \<and> (\<not> isTyping s \<longrightarrow> inflight s = [])"
proof (induction rule: reachable.induct)
  case reachable_init
  show ?case by (simp add: init_def)
next
  case (reachable_step s e s')
  show ?case
  proof (cases e)
    case (Change v)
    with reachable_step show ?thesis by (auto split: if_splits)
  next
    case (KeyDown key shiftKey c c')
    with reachable_step show ?thesis
      by (cases "trim (input s) = []"; cases "isWellFormed (trim (input s))")
         (auto simp: handleKeyDown_def handleSend_when_blank handleSend_when_text
            handleSend_when_malformed split: if_splits)
  next
    case (Click c c')
    with reachable_step show ?thesis
      by (cases "isWellFormed (trim (input s))")
         (auto simp: handleSend_when_text handleSend_when_malformed split: if_splits)
  next
    case (Settle outcome c)
    with reachable_step show ?thesis
      by (cases "inflight s") (auto simp: settle_rest split: if_splits)
  qed
qed

lemma steps_reachable: "reachable s \<Longrightarrow> steps s es = Some s' \<Longrightarrow> reachable s'"
proof (induction es arbitrary: s)
  case Nil
  then show ?case by simp
next
  case (Cons e es)
  then show ?case
    by (auto split: option.splits intro: reachable_step)
qed

lemma trim_Hello: "trim (lit '' Hello  '') = lit ''Hello''"
  by (simp add: trim_def lit_def isWhiteSpace_def)

lemma trim_typed_hello: "trim (input typed_hello) = lit ''Hello''"
  by (simp add: typed_hello_def trim_Hello)

lemma wellFormed_Hello: "isWellFormed (lit ''Hello'')"
  by (simp add: lit_def isHighSurrogate_def isLowSurrogate_def)

lemma trim_lone_surrogate: "trim lone_surrogate = lone_surrogate"
  by (simp add: trim_def lone_surrogate_def isWhiteSpace_def)

lemma malformed_lone_surrogate: "\<not> isWellFormed lone_surrogate"
  by (simp add: lone_surrogate_def isHighSurrogate_def isLowSurrogate_def)

lemma lone_surrogate_not_Nil: "lone_surrogate \<noteq> []"
  by (simp add: lone_surrogate_def)

lemma steps_awaiting_hello:
  "steps init [Change (lit '' Hello  ''), KeyDown (lit ''Enter'') False clock1 clock2] =
     Some awaiting_hello"
proof -
  have "lit ''Hello'' \<noteq> []"
    by (simp add: lit_def)
  then show ?thesis
    by (simp add: init_def handleKeyDown_def handleSend_when_text trim_Hello wellFormed_Hello
        awaiting_hello_def clock1_def chat_url_def)
qed

lemma lit_keys_distinct:
  "lit ''what is your name?'' \<noteq> lit ''hello''"
  "lit ''error'' \<noteq> lit ''hello''"
  "lit ''error'' \<noteq> lit ''what is your name?''"
  by (simp_all add: lit_def)

lemma lit_fields_distinct:
  "lit ''error'' \<noteq> lit ''response''"
  "lit ''response'' \<noteq> lit ''error''"
  by (simp_all add: lit_def)

lemma searchParams_get_chat_url: "searchParams_get (chat_url m) (lit ''message'') = Some m"
  by (simp add: searchParams_get_def chat_url_def)

lemma steps_same_millisecond:
  "steps init same_millisecond =
     Some \<lparr>messages =
             [\<lparr>m_id = 1700000000000, m_text = Str (lit ''hello''), m_sender = S_user,
               m_timestamp = Some 1700000000000\<rparr>,
              \<lparr>m_id = 1700000000000, m_text = Str (lit ''Hello! How can I help you today?''),
               m_sender = S_bot, m_timestamp = Some 1700000000000\<rparr>],
           input = [], isTyping = False, inflight = []\<rparr>"
proof -
  have t: "trim (lit ''hello'') = lit ''hello''"
    by (simp add: trim_def lit_def isWhiteSpace_def)
  have w: "isWellFormed (lit ''hello'')"
    by (simp add: lit_def isHighSurrogate_def isLowSurrogate_def)
  have n: "lit ''hello'' \<noteq> []"
    by (simp add: lit_def)
  have l: "toLowerCase (lit ''hello'') = lit ''hello''"
    by (simp add: toLowerCase_def toLowerCase_unit_def lit_def)
  have g: "GET (chat_url (lit ''hello'')) =
      \<lparr>status = 200, body = Obj [(lit ''response'', Str (lit ''Hello! How can I help you today?''))]\<rparr>"
    by (simp add: GET_def searchParams_get_chat_url n l NextResponse_json_def)
  note k = lit_fields_distinct
  have b: "try_block (fetch_GET (chat_url (lit ''hello''))) =
      Inr (Str (lit ''Hello! How can I help you today?''), S_bot)"
    by (simp add: try_block_def fetch_GET_def g k)
  show ?thesis
    by (simp add: same_millisecond_def init_def handleSend_when_text t w n
        handleSend_settle_def b addMessage_def clock1_def)
qed

subsection \<open>The Responder\<close>

text \<open>
  C1. For every non-empty \<open>message\<close> the Responder lower-cases it and compares the
  result with its three keys: \<open>hello\<close> gives status 200 and the field \<open>response\<close> with
  the greeting, \<open>what is your name?\<close> gives 200 and the name, \<open>error\<close> gives status
  500 and the field \<open>error\<close> with \<open>Something went wrong\<close>, and every other string gives
  200 and the apology.
\<close>

theorem GET_dispatch:
  assumes "searchParams_get r (lit ''message'') = Some message" and "message \<noteq> []"
  shows "(toLowerCase message = lit ''hello'' \<longrightarrow>
            GET r = \<lparr>status = 200,
                     body = Obj [(lit ''response'', Str (lit ''Hello! How can I help you today?''))]\<rparr>)
       \<and> (toLowerCase message = lit ''what is your name?'' \<longrightarrow>
            GET r = \<lparr>status = 200,
                     body = Obj [(lit ''response'', Str (lit ''I'm a chatbot built by MAS.''))]\<rparr>)
       \<and> (toLowerCase message = lit ''error'' \<longrightarrow>
            GET r = \<lparr>status = 500, body = Obj [(lit ''error'', Str (lit ''Something went wrong''))]\<rparr>)
       \<and> (toLowerCase message \<noteq> lit ''hello'' \<and> toLowerCase message \<noteq> lit ''what is your name?''
            \<and> toLowerCase message \<noteq> lit ''error'' \<longrightarrow>
            GET r = \<lparr>status = 200,
                     body = Obj [(lit ''response'', Str (lit ''Sorry, I didn't understand that.''))]\<rparr>)"
  using assms by (simp add: GET_def NextResponse_json_def Let_def lit_keys_distinct)

theorem GET_dispatch_witness:
  "searchParams_get (chat_url (lit ''HeLLo'')) (lit ''message'') = Some (lit ''HeLLo'')
   \<and> lit ''HeLLo'' \<noteq> []
   \<and> toLowerCase (lit ''HeLLo'') = lit ''hello''
   \<and> GET (chat_url (lit ''HeLLo'')) =
       \<lparr>status = 200, body = Obj [(lit ''response'', Str (lit ''Hello! How can I help you today?''))]\<rparr>
   \<and> toLowerCase (lit ''What is your NAME?'') = lit ''what is your name?''
   \<and> GET (chat_url (lit ''What is your NAME?'')) =
       \<lparr>status = 200, body = Obj [(lit ''response'', Str (lit ''I'm a chatbot built by MAS.''))]\<rparr>
   \<and> toLowerCase (lit ''ERROR'') = lit ''error''
   \<and> GET (chat_url (lit ''ERROR'')) =
       \<lparr>status = 500, body = Obj [(lit ''error'', Str (lit ''Something went wrong''))]\<rparr>
   \<and> toLowerCase (lit ''banana'') = lit ''banana''
   \<and> GET (chat_url (lit ''banana'')) =
       \<lparr>status = 200, body = Obj [(lit ''response'', Str (lit ''Sorry, I didn't understand that.''))]\<rparr>"
proof -
  note p = searchParams_get_chat_url
  have n1: "lit ''HeLLo'' \<noteq> []" and n2: "lit ''What is your NAME?'' \<noteq> []"
    and n3: "lit ''ERROR'' \<noteq> []" and n4: "lit ''banana'' \<noteq> []"
    by (simp_all add: lit_def)
  have l1: "toLowerCase (lit ''HeLLo'') = lit ''hello''"
    by (simp add: toLowerCase_def toLowerCase_unit_def lit_def)
  have l2: "toLowerCase (lit ''What is your NAME?'') = lit ''what is your name?''"
    by (simp add: toLowerCase_def toLowerCase_unit_def lit_def)
  have l3: "toLowerCase (lit ''ERROR'') = lit ''error''"
    by (simp add: toLowerCase_def toLowerCase_unit_def lit_def)
  have l4: "toLowerCase (lit ''banana'') = lit ''banana''"
    by (simp add: toLowerCase_def toLowerCase_unit_def lit_def)
  have d4: "toLowerCase (lit ''banana'') \<noteq> lit ''hello''
      \<and> toLowerCase (lit ''banana'') \<noteq> lit ''what is your name?''
      \<and> toLowerCase (lit ''banana'') \<noteq> lit ''error''"
    by (simp add: l4) (simp add: lit_def)
  note g1 = GET_dispatch [OF p n1, THEN conjunct1, THEN mp, OF l1]
  note g2 = GET_dispatch [OF p n2, THEN conjunct2, THEN conjunct1, THEN mp, OF l2]
  note g3 = GET_dispatch [OF p n3, THEN conjunct2, THEN conjunct2, THEN conjunct1, THEN mp, OF l3]
  note g4 = GET_dispatch [OF p n4, THEN conjunct2, THEN conjunct2, THEN conjunct2, THEN mp, OF d4]
  show ?thesis
    using p [of "lit ''HeLLo''"] n1 l1 g1 l2 g2 l3 g3 l4 g4 by blast
qed

text \<open>
  C7. When the parameter \<open>message\<close> is absent or empty, the Responder answers with
  status 400 and the field \<open>error\<close> with \<open>Missing message query\<close>; the body has no
  \<open>response\<close> field.
\<close>

theorem GET_missing_message:
  assumes "searchParams_get r (lit ''message'') = None
         \<or> searchParams_get r (lit ''message'') = Some []"
  shows "GET r = \<lparr>status = 400, body = Obj [(lit ''error'', Str (lit ''Missing message query''))]\<rparr>
       \<and> get_prop (body (GET r)) (lit ''response'') = Inr Undefined"
  using assms by (auto simp: GET_def NextResponse_json_def lit_fields_distinct)

theorem GET_missing_message_witness:
  "searchParams_get \<lparr>path = ''/api/chat'', searchParams = []\<rparr> (lit ''message'') = None
   \<and> GET \<lparr>path = ''/api/chat'', searchParams = []\<rparr> =
       \<lparr>status = 400, body = Obj [(lit ''error'', Str (lit ''Missing message query''))]\<rparr>
   \<and> searchParams_get (chat_url []) (lit ''message'') = Some []
   \<and> GET (chat_url []) =
       \<lparr>status = 400, body = Obj [(lit ''error'', Str (lit ''Missing message query''))]\<rparr>
   \<and> get_prop (body (GET (chat_url []))) (lit ''response'') = Inr Undefined"
proof -
  have a: "searchParams_get \<lparr>path = ''/api/chat'', searchParams = []\<rparr> (lit ''message'') = None"
    by (simp add: searchParams_get_def)
  note b = searchParams_get_chat_url [of "[]"]
  show ?thesis
    using GET_missing_message [OF disjI1, OF a] GET_missing_message [OF disjI2, OF b] a b
    by blast
qed

subsection \<open>One submission\<close>

text \<open>
  C9. When the input is empty or holds white space only, its trimmed form is empty and
  \<open>handleSend\<close> does nothing: no message is appended, \<open>isTyping\<close> is not set, no
  request is sent, the state is as it was. The same holds through \<open>handleKeyDown\<close>,
  and the button is disabled.
\<close>

theorem handleSend_blank_noop:
  assumes "\<forall>u\<in>set (input s). isWhiteSpace u"
  shows "trim (input s) = [] \<and> handleSend (input s) c c' = []
       \<and> run (handleSend (input s) c c') s = s
       \<and> run (handleKeyDown (input s) key shiftKey c c') s = s
       \<and> step s (Click c c') = None"
  using assms by (simp add: trim_empty_iff [symmetric] handleSend_when_blank handleKeyDown_def)

theorem handleSend_blank_noop_witness:
  "list_all isWhiteSpace (input typed_blank)
   \<and> handleSend (input typed_blank) clock1 clock2 = []
   \<and> run (handleSend (input typed_blank) clock1 clock2) typed_blank = typed_blank
   \<and> handleSend (input init) clock1 clock2 = []
   \<and> run (handleSend (input init) clock1 clock2) init = init"
proof -
  have w: "\<forall>u\<in>set (input typed_blank). isWhiteSpace u"
    by (simp add: typed_blank_def isWhiteSpace_def)
  have e: "\<forall>u\<in>set (input init). isWhiteSpace u"
    by (simp add: init_def)
  show ?thesis
    using w handleSend_blank_noop [OF w, of clock1 clock2]
      handleSend_blank_noop [OF e, of clock1 clock2]
    by (simp add: list_all_iff)
qed

text \<open>
  C8, as stated, fails. The argument of \<open>fetch\<close> is built inside the \<open>try\<close> block, and
  \<open>encodeURIComponent\<close> throws a URIError on a text with a lone surrogate. For the
  input \<open>lone_surrogate\<close>, whose trimmed form is not empty, \<open>handleSend\<close> appends the
  user's message, clears the input and sets \<open>isTyping\<close>, and then runs its \<open>catch\<close>
  and \<open>finally\<close> clauses: no request is sent.
\<close>

theorem lone_surrogate_no_request_counterexample:
  "trim (input typed_lone_surrogate) \<noteq> []
   \<and> handleSend (input typed_lone_surrogate) clock1 clock2 =
       [SetMessages_append
          \<lparr>m_id = 1700000000000, m_text = Str lone_surrogate, m_sender = S_user,
           m_timestamp = Some 1700000000000\<rparr>,
        SetInput [],
        SetIsTyping True,
        Console_error URIError_malformed,
        SetMessages_append
          \<lparr>m_id = 1700000000250, m_text = Str (lit ''URI malformed''), m_sender = S_error,
           m_timestamp = Some 1700000000250\<rparr>,
        SetIsTyping False]
   \<and> inflight (run (handleSend (input typed_lone_surrogate) clock1 clock2) typed_lone_surrogate) = []"
proof -
  have i: "input typed_lone_surrogate = lone_surrogate"
    by (simp add: typed_lone_surrogate_def)
  have n: "trim lone_surrogate \<noteq> []"
    by (simp add: trim_lone_surrogate lone_surrogate_not_Nil)
  have m: "\<not> isWellFormed (trim lone_surrogate)"
    by (simp add: trim_lone_surrogate malformed_lone_surrogate)
  show ?thesis
    by (simp add: i lone_surrogate_not_Nil handleSend_when_malformed [OF n m]
        trim_lone_surrogate clock1_def clock2_def) (simp add: typed_lone_surrogate_def)
qed

text \<open>
  C8, amended. When the trimmed input is not empty, \<open>handleSend\<close> first appends the
  user's message with the trimmed text, then sets the input to the empty string, then sets
  \<open>isTyping\<close> to true. When the trimmed text is well formed it then sends the request
  whose only parameter is the trimmed text, and the state is the old one with these four
  changes. When the trimmed text has a lone surrogate no request is sent: the \<open>catch\<close>
  and \<open>finally\<close> clauses follow the three effects at once.
\<close>

theorem handleSend_effects_in_order:
  assumes "trim (input s) \<noteq> []"
  shows "(isWellFormed (trim (input s)) \<longrightarrow>
            handleSend (input s) c c' =
              [SetMessages_append
                 \<lparr>m_id = Date_now c, m_text = Str (trim (input s)), m_sender = S_user,
                  m_timestamp = Some (new_Date c)\<rparr>,
               SetInput [],
               SetIsTyping True,
               Fetch \<lparr>path = ''/api/chat'', searchParams = [(lit ''message'', trim (input s))]\<rparr>]
          \<and> run (handleSend (input s) c c') s =
              \<lparr>messages = messages s @
                 [\<lparr>m_id = Date_now c, m_text = Str (trim (input s)), m_sender = S_user,
                   m_timestamp = Some (new_Date c)\<rparr>],
               input = [],
               isTyping = True,
               inflight = inflight s @
                 [\<lparr>path = ''/api/chat'', searchParams = [(lit ''message'', trim (input s))]\<rparr>]\<rparr>)
       \<and> (\<not> isWellFormed (trim (input s)) \<longrightarrow>
            handleSend (input s) c c' =
              [SetMessages_append
                 \<lparr>m_id = Date_now c, m_text = Str (trim (input s)), m_sender = S_user,
                  m_timestamp = Some (new_Date c)\<rparr>,
               SetInput [],
               SetIsTyping True]
              @ catch_finally URIError_malformed c'
          \<and> inflight (run (handleSend (input s) c c') s) = inflight s)"
  using assms
  by (simp add: handleSend_when_text handleSend_when_malformed catch_finally_def addMessage_def
      catch_text_def URIError_malformed_def)

theorem handleSend_effects_in_order_witness:
  "trim (input typed_hello) \<noteq> [] \<and> isWellFormed (trim (input typed_hello))
   \<and> handleSend (input typed_hello) clock1 clock2 =
       [SetMessages_append
          \<lparr>m_id = 1700000000000, m_text = Str (lit ''Hello''), m_sender = S_user,
           m_timestamp = Some 1700000000000\<rparr>,
        SetInput [],
        SetIsTyping True,
        Fetch \<lparr>path = ''/api/chat'', searchParams = [(lit ''message'', lit ''Hello'')]\<rparr>]
   \<and> run (handleSend (input typed_hello) clock1 clock2) typed_hello = awaiting_hello
   \<and> trim (input typed_lone_surrogate) \<noteq> [] \<and> \<not> isWellFormed (trim (input typed_lone_surrogate))
   \<and> inflight (run (handleSend (input typed_lone_surrogate) clock1 clock2) typed_lone_surrogate) =
       inflight typed_lone_surrogate"
proof -
  have h: "trim (input typed_hello) \<noteq> []"
    by (simp add: trim_typed_hello lit_def)
  have w: "isWellFormed (trim (input typed_hello))"
    by (simp add: trim_typed_hello wellFormed_Hello)
  have i: "input typed_lone_surrogate = lone_surrogate"
    by (simp add: typed_lone_surrogate_def)
  have n: "trim (input typed_lone_surrogate) \<noteq> []"
    by (simp add: i trim_lone_surrogate lone_surrogate_not_Nil)
  have m: "\<not> isWellFormed (trim (input typed_lone_surrogate))"
    by (simp add: i trim_lone_surrogate malformed_lone_surrogate)
  note a = handleSend_effects_in_order [OF h, of clock1 clock2, THEN conjunct1, THEN mp, OF w]
  note b = handleSend_effects_in_order [OF n, of clock1 clock2, THEN conjunct2, THEN mp, OF m]
  have a1: "handleSend (input typed_hello) clock1 clock2 =
       [SetMessages_append
          \<lparr>m_id = 1700000000000, m_text = Str (lit ''Hello''), m_sender = S_user,
           m_timestamp = Some 1700000000000\<rparr>,
        SetInput [],
        SetIsTyping True,
        Fetch \<lparr>path = ''/api/chat'', searchParams = [(lit ''message'', lit ''Hello'')]\<rparr>]"
    using a by (simp add: trim_typed_hello clock1_def)
  have a2: "run (handleSend (input typed_hello) clock1 clock2) typed_hello = awaiting_hello"
    using a by (simp add: trim_typed_hello clock1_def awaiting_hello_def chat_url_def)
       (simp add: typed_hello_def)
  show ?thesis
    using h w a1 a2 n m b by blast
qed



text \<open>
  C3. After the exchange has settled \<open>isTyping\<close> is false, for every outcome of the
  \<open>fetch\<close>: a reply, an error payload, a body that does not parse, a rejection, an
  exception.
\<close>

theorem settle_clears_isTyping:
  "isTyping (run (handleSend_settle outcome c) s) = False"
  by (simp add: settle_rest)

theorem settle_clears_isTyping_witness:
  "isTyping (run (handleSend_settle (fetch_GET (chat_url (lit ''error''))) clock2) awaiting_hello)
     = False
   \<and> isTyping (run (handleSend_settle (Inl URIError_malformed) clock2) awaiting_hello) = False"
  using settle_clears_isTyping [of "fetch_GET (chat_url (lit ''error''))" clock2 awaiting_hello]
    settle_clears_isTyping [of "Inl URIError_malformed" clock2 awaiting_hello]
  by simp

subsection \<open>Failures\<close>

text \<open>
  C5, as stated, fails. A \<open>fetch\<close> that cannot reach the network rejects with a
  TypeError, which is an instance of \<open>Error\<close>, and the \<open>catch\<close> clause then shows
  the message of that error (here \<open>Failed to fetch\<close>), not the generic fallback text.
\<close>

theorem network_failure_text_counterexample:
  "m_text (last (messages (run (handleSend_settle (Inl (ErrorInstance (lit ''Failed to fetch''))) clock2)
                             awaiting_hello)))
     = Str (lit ''Failed to fetch'')
   \<and> m_text (last (messages (run (handleSend_settle (Inl (ErrorInstance (lit ''Failed to fetch''))) clock2)
                             awaiting_hello)))
     \<noteq> Str (lit ''Sorry, something went wrong. Please try again.'')"
  by (simp add: settle_messages try_block_def catch_text_def) (simp add: lit_def)

text \<open>
  C5, amended. When the \<open>fetch\<close> rejects, the transcript gains exactly one entry, with
  sender error; its text is the message of the thrown value when that is an instance of
  \<open>Error\<close>, and the generic fallback text when it is not; and \<open>isTyping\<close> is false
  again.
\<close>

theorem network_failure_one_error_entry:
  "messages (run (handleSend_settle (Inl err) c) s) =
     messages s @
     [\<lparr>m_id = Date_now c, m_text = catch_text err, m_sender = S_error,
       m_timestamp = Some (new_Date c)\<rparr>]
   \<and> isTyping (run (handleSend_settle (Inl err) c) s) = False
   \<and> catch_text (ErrorInstance message) = Str message
   \<and> catch_text (NonError v) = Str (lit ''Sorry, something went wrong. Please try again.'')"
  by (simp add: settle_messages settle_rest try_block_def catch_text_def)

theorem network_failure_one_error_entry_witness:
  "messages (run (handleSend_settle (Inl (ErrorInstance (lit ''Failed to fetch''))) clock2) init) =
     [\<lparr>m_id = 1700000000250, m_text = Str (lit ''Failed to fetch''), m_sender = S_error,
       m_timestamp = Some 1700000000250\<rparr>]
   \<and> messages (run (handleSend_settle (Inl (NonError Undefined)) clock2) init) =
     [\<lparr>m_id = 1700000000250,
       m_text = Str (lit ''Sorry, something went wrong. Please try again.''),
       m_sender = S_error, m_timestamp = Some 1700000000250\<rparr>]
   \<and> isTyping (run (handleSend_settle (Inl (ErrorInstance (lit ''Failed to fetch''))) clock2) init)
     = False"
  using network_failure_one_error_entry [of "ErrorInstance (lit ''Failed to fetch'')" clock2 init]
    network_failure_one_error_entry [of "NonError Undefined" clock2 init "[]" Undefined]
  by (simp add: init_def clock2_def catch_text_def)

text \<open>
  C10, as stated, fails. The body \<open>null\<close> parses as JSON and has no \<open>error\<close> field, but
  reading \<open>errorData.error\<close> on it throws a TypeError, and the entry shows the message of
  that TypeError, not \<open>Failed to get response\<close>.
\<close>

theorem null_body_text_counterexample:
  "\<not> ok \<lparr>ok = False, json = Inr Null\<rparr>
   \<and> m_text (last (messages (run (handleSend_settle (Inr \<lparr>ok = False, json = Inr Null\<rparr>) clock2)
                               awaiting_hello)))
     = Str (lit ''Cannot read properties of null (reading 'error')'')
   \<and> m_text (last (messages (run (handleSend_settle (Inr \<lparr>ok = False, json = Inr Null\<rparr>) clock2)
                               awaiting_hello)))
     \<noteq> Str (lit ''Failed to get response'')"
  by (simp add: settle_messages try_block_def catch_text_def TypeError_read_def)
     (simp add: lit_def)

text \<open>
  C10, amended. When the response is not \<open>ok\<close> and its body parses to a value other
  than \<open>null\<close> (so that \<open>errorData.error\<close> can be read) whose \<open>error\<close> field is absent
  or the empty string, the transcript gains one error entry whose text is
  \<open>Failed to get response\<close>. That text differs from the generic one of the \<open>catch\<close>
  clause, which is shown for a thrown value that is not an instance of \<open>Error\<close>; for
  an instance the clause shows its message.
\<close>

theorem not_ok_without_error_text:
  assumes "\<not> ok r" and "json r = Inr errorData"
    and "get_prop errorData (lit ''error'') = Inr Undefined
       \<or> get_prop errorData (lit ''error'') = Inr (Str [])"
  shows "messages (run (handleSend_settle (Inr r) c) s) =
           messages s @
           [\<lparr>m_id = Date_now c, m_text = Str (lit ''Failed to get response''), m_sender = S_error,
             m_timestamp = Some (new_Date c)\<rparr>]
       \<and> catch_text (NonError v) = Str (lit ''Sorry, something went wrong. Please try again.'')
       \<and> catch_text (NonError v) \<noteq> Str (lit ''Failed to get response'')
       \<and> catch_text (ErrorInstance message) = Str message"
proof -
  have "lit ''Sorry, something went wrong. Please try again.'' \<noteq> lit ''Failed to get response''"
    by (simp add: lit_def)
  then show ?thesis
    using assms by (auto simp: settle_messages try_block_def catch_text_def)
qed

theorem not_ok_without_error_text_witness:
  "\<not> ok \<lparr>ok = False, json = Inr (Obj [(lit ''detail'', Str (lit ''Bad gateway''))])\<rparr>
   \<and> messages (run (handleSend_settle
                      (Inr \<lparr>ok = False, json = Inr (Obj [(lit ''detail'', Str (lit ''Bad gateway''))])\<rparr>)
                      clock2) awaiting_hello) =
       messages awaiting_hello @
       [\<lparr>m_id = 1700000000250, m_text = Str (lit ''Failed to get response''), m_sender = S_error,
         m_timestamp = Some 1700000000250\<rparr>]
   \<and> messages (run (handleSend_settle
                      (Inr \<lparr>ok = False, json = Inr (Obj [(lit ''error'', Str [])])\<rparr>)
                      clock2) awaiting_hello) =
       messages awaiting_hello @
       [\<lparr>m_id = 1700000000250, m_text = Str (lit ''Failed to get response''), m_sender = S_error,
         m_timestamp = Some 1700000000250\<rparr>]
   \<and> messages (run (handleSend_settle (Inr \<lparr>ok = False, json = Inr (Num ''502'')\<rparr>)
                      clock2) awaiting_hello) =
       messages awaiting_hello @
       [\<lparr>m_id = 1700000000250, m_text = Str (lit ''Failed to get response''), m_sender = S_error,
         m_timestamp = Some 1700000000250\<rparr>]"
proof -
  have k: "lit ''detail'' \<noteq> lit ''error''"
    by (simp add: lit_def)
  have a: "get_prop (Obj [(lit ''detail'', Str (lit ''Bad gateway''))]) (lit ''error'') = Inr Undefined
         \<or> get_prop (Obj [(lit ''detail'', Str (lit ''Bad gateway''))]) (lit ''error'') = Inr (Str [])"
    using k by simp
  have b: "get_prop (Obj [(lit ''error'', Str [])]) (lit ''error'') = Inr Undefined
         \<or> get_prop (Obj [(lit ''error'', Str [])]) (lit ''error'') = Inr (Str [])"
    by simp
  have d: "get_prop (Num ''502'') (lit ''error'') = Inr Undefined
         \<or> get_prop (Num ''502'') (lit ''error'') = Inr (Str [])"
    by simp
  show ?thesis
    using not_ok_without_error_text
            [of "\<lparr>ok = False, json = Inr (Obj [(lit ''detail'', Str (lit ''Bad gateway''))])\<rparr>"
                "Obj [(lit ''detail'', Str (lit ''Bad gateway''))]" clock2 awaiting_hello, OF _ _ a]
          not_ok_without_error_text
            [of "\<lparr>ok = False, json = Inr (Obj [(lit ''error'', Str [])])\<rparr>"
                "Obj [(lit ''error'', Str [])]" clock2 awaiting_hello, OF _ _ b]
          not_ok_without_error_text
            [of "\<lparr>ok = False, json = Inr (Num ''502'')\<rparr>" "Num ''502''" clock2 awaiting_hello,
             OF _ _ d]
    by (simp add: clock2_def)
qed

subsection \<open>The mounted component\<close>

text \<open>
  C6. In every state the component can reach, at most one request is in flight; and while
  \<open>isTyping\<close> is true a further \<open>handleSend\<close> does nothing (no message, no request, the
  state as it was), directly or through \<open>handleKeyDown\<close>, and the disabled button and
  text field give no click, key or change event.
\<close>

theorem second_submit_rejected:
  assumes "reachable s"
  shows "length (inflight s) \<le> 1
       \<and> (isTyping s \<longrightarrow>
            handleSend (input s) c c' = [] \<and> run (handleSend (input s) c c') s = s
          \<and> handleKeyDown (input s) key shiftKey c c' = []
          \<and> step s (Click c c') = None \<and> step s (KeyDown key shiftKey c c') = None
          \<and> step s (Change v) = None)"
  using reachable_inv [OF assms]
  by (cases "isTyping s") (simp_all add: handleSend_when_blank handleKeyDown_def)

theorem second_submit_rejected_witness:
  "reachable awaiting_hello \<and> isTyping awaiting_hello
   \<and> length (inflight awaiting_hello) \<le> 1
   \<and> handleSend (input awaiting_hello) clock2 clock2 = []
   \<and> run (handleSend (input awaiting_hello) clock2 clock2) awaiting_hello = awaiting_hello
   \<and> step awaiting_hello (Click clock2 clock2) = None
   \<and> step awaiting_hello (KeyDown (lit ''Enter'') False clock2 clock2) = None"
proof -
  have r: "reachable awaiting_hello"
    using steps_reachable [OF reachable_init steps_awaiting_hello] .
  have t: "isTyping awaiting_hello"
    by (simp add: awaiting_hello_def)
  show ?thesis
    using r t second_submit_rejected [OF r, of clock2 clock2 "lit ''Enter''" False]
    by simp
qed

text \<open>
  C4. The ids of the messages are meant to be pairwise distinct (they are the keys of the
  rendered list), but an id is the clock reading \<open>Date.now()\<close>: in the run
  \<open>same_millisecond\<close>, where the reply arrives within the millisecond of the
  submission, the component reaches a transcript whose two messages carry the same id.
\<close>

theorem same_millisecond_ids:
  "(case steps init same_millisecond of
      None \<Rightarrow> False
    | Some s \<Rightarrow> reachable s \<and> map m_id (messages s) = [1700000000000, 1700000000000]
        \<and> \<not> distinct (map m_id (messages s)))"
proof -
  note e = steps_same_millisecond
  have "reachable \<lparr>messages =
             [\<lparr>m_id = 1700000000000, m_text = Str (lit ''hello''), m_sender = S_user,
               m_timestamp = Some 1700000000000\<rparr>,
              \<lparr>m_id = 1700000000000, m_text = Str (lit ''Hello! How can I help you today?''),
               m_sender = S_bot, m_timestamp = Some 1700000000000\<rparr>],
           input = [], isTyping = False, inflight = []\<rparr>"
    using steps_reachable [OF reachable_init e] .
  then show ?thesis
    by (simp add: e)
qed

end
